theory Spec2Isabelle
  imports Main
begin

section \<open>The orchestrator of tableqa: \<open>Agent\<close> in src/tableqa/agent.py\<close>

text \<open>
  \<open>Agent\<close> wires a question through table selection and query synthesis (class \<open>Nlp\<close>),
  execution (class \<open>Database\<close>) and charting (class \<open>Chart\<close>). Only agent.py is part of the
  sources; the three collaborator classes are therefore parameters of the model, gathered
  in the record \<open>env\<close>. Every collaborator call may raise, so each returns a sum whose left
  injection carries the exception. What the two methods do besides returning (the root
  logger's level, the lines printed, the calls made to collaborators) is threaded through
  an explicit \<open>world\<close>, which is returned also when an exception leaves the method.
  A collaborator is a function of the arguments it is called with: its outcome does not
  depend on the root logger or on the lines printed, and it changes neither.
\<close>

subsection \<open>Values\<close>

text \<open>\<open>data_dir\<close> is a path to a folder or, as line 132 tests, a pandas \<open>DataFrame\<close>.\<close>

datatype 'df data_source = Path string | DataFrame 'df

text \<open>Exceptions raised by collaborators; agent.py itself has no \<open>raise\<close> and no \<open>try\<close>.\<close>

datatype py_exn =
    SchemaError
  | AmbiguousQueryError
  | RenderError
  | ExecutionError string
  | ChartError string

text \<open>The levels of Python's \<open>logging\<close> module.\<close>

datatype log_level = DEBUG | INFO | WARNING | ERROR | CRITICAL

text \<open>The attributes assigned by \<open>Agent.__init__\<close> (lines 99 to 111).\<close>

record 'df agent =
  data_dir :: "'df data_source"
  schema_dir :: "string option"
  db_type :: string
  username :: string
  password :: string
  database :: string
  host :: string
  port :: "string option"
  drop_db :: bool
  aws_db :: bool
  aws_s3 :: bool
  access_key_id :: string
  secret_access_key :: string

subsection \<open>Effects\<close>

text \<open>Which method of the \<open>Database\<close> object \<open>getattr\<close> bound (lines 174 to 177).\<close>

datatype backend = Local | Aws

text \<open>One event per call that leaves agent.py, with the arguments passed.\<close>

datatype ('df, 'row) event =
    NlpInit "'df data_source" "string option" bool string string
  | CsvSelect string
  | GetSqlQuery 'df string bool
  | LoggerInfo string string string
  | DatabaseInit "'df data_source" "string option" bool string string
  | FetchData backend string "string option" string string string string string "string option" bool
  | ChartInit string "string option" "'row list" "int \<times> int"

record ('df, 'row) world =
  root_level :: log_level
  stdout :: "string list"
  trace :: "('df, 'row) event list"

definition emit :: "('df, 'row) event \<Rightarrow> ('df, 'row) world \<Rightarrow> ('df, 'row) world" where
  "emit ev w = w\<lparr>trace := trace w @ [ev]\<rparr>"

text \<open>\<open>print(s)\<close>.\<close>

definition py_print :: "string \<Rightarrow> ('df, 'row) world \<Rightarrow> ('df, 'row) world" where
  "py_print s w = w\<lparr>stdout := stdout w @ [s]\<rparr>"

text \<open>\<open>logging.getLogger().setLevel(l)\<close>: the root logger is process-wide state.\<close>

definition setLevel :: "log_level \<Rightarrow> ('df, 'row) world \<Rightarrow> ('df, 'row) world" where
  "setLevel l w = w\<lparr>root_level := l\<rparr>"

text \<open>
  Modelled from the spec: \<open>logging_utils.get_logger\<close> is imported by agent.py but is not
  among the sources. The spec describes verbosity as controlling logging only, so obtaining
  the logger yields the logger of that name and does nothing else.
\<close>

definition get_logger :: "string \<Rightarrow> string" where
  "get_logger name = name"

text \<open>\<open>logger.info(fmt, arg)\<close>: the call is recorded with the logger's name.\<close>

definition logger_info ::
  "string \<Rightarrow> string \<Rightarrow> string \<Rightarrow> ('df, 'row) world \<Rightarrow> ('df, 'row) world" where
  "logger_info logger fmt arg w = emit (LoggerInfo logger fmt arg) w"

text \<open>\<open>__name__\<close> inside agent.py.\<close>

definition dunder_name :: string where
  "dunder_name = ''tableqa.agent''"

text \<open>The line printed at line 137.\<close>

definition not_understood_msg :: string where
  "not_understood_msg = ''Sorry,didn't catch that''"

subsection \<open>Collaborators\<close>

text \<open>
  The constructors and methods agent.py calls on \<open>Nlp\<close>, \<open>Database\<close> and \<open>Chart\<close>, with the
  argument lists of lines 130, 135, 142, 173, 178 and 181. \<open>csv_select\<close> returns \<open>None\<close> when
  no table matches the question.
\<close>

record ('df, 'nlp, 'db, 'row) env =
  Nlp :: "'df data_source \<Rightarrow> string option \<Rightarrow> bool \<Rightarrow> string \<Rightarrow> string \<Rightarrow> py_exn + 'nlp"
  csv_select :: "'nlp \<Rightarrow> string \<Rightarrow> py_exn + 'df option"
  get_sql_query :: "'nlp \<Rightarrow> 'df \<Rightarrow> string \<Rightarrow> bool \<Rightarrow> py_exn + string"
  Database :: "'df data_source \<Rightarrow> string option \<Rightarrow> bool \<Rightarrow> string \<Rightarrow> string \<Rightarrow> py_exn + 'db"
  fetch_data :: "'db \<Rightarrow> string \<Rightarrow> string option \<Rightarrow> string \<Rightarrow> string \<Rightarrow> string \<Rightarrow> string
                 \<Rightarrow> string \<Rightarrow> string option \<Rightarrow> bool \<Rightarrow> py_exn + 'row list"
  fetch_data_aws :: "'db \<Rightarrow> string \<Rightarrow> string option \<Rightarrow> string \<Rightarrow> string \<Rightarrow> string \<Rightarrow> string
                 \<Rightarrow> string \<Rightarrow> string option \<Rightarrow> bool \<Rightarrow> py_exn + 'row list"
  Chart :: "string \<Rightarrow> string option \<Rightarrow> 'row list \<Rightarrow> int \<times> int \<Rightarrow> py_exn + unit"

subsection \<open>\<open>Agent.get_query\<close> (lines 113 to 148)\<close>

text \<open>Line 130: \<open>Nlp(self.data_dir, self.schema_dir, self.aws_s3, ...)\<close> and its event.\<close>

definition make_nlp :: "('df, 'nlp, 'db, 'row) env \<Rightarrow> 'df agent \<Rightarrow> py_exn + 'nlp" where
  "make_nlp E self =
     Nlp E (data_dir self) (schema_dir self) (aws_s3 self)
       (access_key_id self) (secret_access_key self)"

definition nlp_event :: "'df agent \<Rightarrow> ('df, 'row) event" where
  "nlp_event self =
     NlpInit (data_dir self) (schema_dir self) (aws_s3 self)
       (access_key_id self) (secret_access_key self)"

text \<open>Lines 132 to 135: the table the query is synthesized over.\<close>

definition select_df ::
  "('df, 'nlp, 'db, 'row) env \<Rightarrow> 'df agent \<Rightarrow> 'nlp \<Rightarrow> string \<Rightarrow> ('df, 'row) world
   \<Rightarrow> (py_exn + 'df option) \<times> ('df, 'row) world" where
  "select_df E self nlp question w =
     (case data_dir self of
        DataFrame d \<Rightarrow> (Inr (Some d), w)
      | Path p \<Rightarrow> (csv_select E nlp question, emit (CsvSelect question) w))"

definition get_query ::
  "('df, 'nlp, 'db, 'row) env \<Rightarrow> 'df agent \<Rightarrow> string \<Rightarrow> bool \<Rightarrow> bool \<Rightarrow> ('df, 'row) world
   \<Rightarrow> (py_exn + string option) \<times> ('df, 'row) world" where
  "get_query E self question verbose distinct' w =
     (let w0 = emit (nlp_event self) w
      in case make_nlp E self of
           Inl e \<Rightarrow> (Inl e, w0)
         | Inr nlp \<Rightarrow>
            (case select_df E self nlp question w0 of
               (Inl e, w1) \<Rightarrow> (Inl e, w1)
             | (Inr None, w1) \<Rightarrow> (Inr None, py_print not_understood_msg w1)
             | (Inr (Some df), w1) \<Rightarrow>
                 if verbose then
                   (let w2 = setLevel INFO w1;
                        logger = get_logger dunder_name;
                        w3 = emit (GetSqlQuery df question distinct') w2
                    in case get_sql_query E nlp df question distinct' of
                         Inl e \<Rightarrow> (Inl e, w3)
                       | Inr sql_query \<Rightarrow>
                           (Inr (Some sql_query),
                            logger_info logger ''SQL query = %s'' sql_query w3))
                 else
                   (let w2 = setLevel WARNING w1;
                        w3 = emit (GetSqlQuery df question distinct') w2
                    in case get_sql_query E nlp df question distinct' of
                         Inl e \<Rightarrow> (Inl e, w3)
                       | Inr sql_query \<Rightarrow> (Inr (Some sql_query), w3))))"

subsection \<open>\<open>Agent.query_db\<close> (lines 151 to 182)\<close>

text \<open>Line 173: \<open>Database(self.data_dir, self.schema_dir, self.aws_s3, ...)\<close> and its event.\<close>

definition make_database :: "('df, 'nlp, 'db, 'row) env \<Rightarrow> 'df agent \<Rightarrow> py_exn + 'db" where
  "make_database E self =
     Database E (data_dir self) (schema_dir self) (aws_s3 self)
       (access_key_id self) (secret_access_key self)"

definition database_event :: "'df agent \<Rightarrow> ('df, 'row) event" where
  "database_event self =
     DatabaseInit (data_dir self) (schema_dir self) (aws_s3 self)
       (access_key_id self) (secret_access_key self)"

text \<open>
  Lines 174 to 178: \<open>getattr\<close> binds \<open>fetch_data_aws\<close> when \<open>self.aws_db\<close> is set and
  \<open>fetch_data\<close> otherwise; the bound method is called once, with the question, the query
  and the connection attributes of the agent.
\<close>

definition fetch_answer ::
  "('df, 'nlp, 'db, 'row) env \<Rightarrow> 'df agent \<Rightarrow> 'db \<Rightarrow> string \<Rightarrow> string option
   \<Rightarrow> py_exn + 'row list" where
  "fetch_answer E self db question query =
     (let fetch = (if aws_db self then fetch_data_aws E db else fetch_data E db)
      in fetch question query (db_type self) (username self) (password self)
           (database self) (host self) (port self) (drop_db self))"

definition fetch_event :: "'df agent \<Rightarrow> string \<Rightarrow> string option \<Rightarrow> ('df, 'row) event" where
  "fetch_event self question query =
     FetchData (if aws_db self then Aws else Local) question query
       (db_type self) (username self) (password self)
       (database self) (host self) (port self) (drop_db self)"

definition query_db ::
  "('df, 'nlp, 'db, 'row) env \<Rightarrow> 'df agent \<Rightarrow> string \<Rightarrow> bool \<Rightarrow> string option \<Rightarrow> int \<times> int
   \<Rightarrow> bool \<Rightarrow> ('df, 'row) world \<Rightarrow> (py_exn + 'row list) \<times> ('df, 'row) world" where
  "query_db E self question verbose chart fig_size distinct' w =
     (case get_query E self question verbose distinct' w of
        (Inl e, w1) \<Rightarrow> (Inl e, w1)
      | (Inr query, w1) \<Rightarrow>
         (let w2 = emit (database_event self) w1
          in case make_database E self of
               Inl e \<Rightarrow> (Inl e, w2)
             | Inr db \<Rightarrow>
                (let w3 = emit (fetch_event self question query) w2
                 in case fetch_answer E self db question query of
                      Inl e \<Rightarrow> (Inl e, w3)
                    | Inr answer \<Rightarrow>
                       (case chart of
                          None \<Rightarrow> (Inr answer, w3)
                        | Some c \<Rightarrow>
                           (let w4 = emit (ChartInit c query answer fig_size) w3
                            in case Chart E c query answer fig_size of
                                 Inl e \<Rightarrow> (Inl e, w4)
                               | Inr u \<Rightarrow> (Inr answer, w4))))))"

subsection \<open>Observations on the calls made\<close>

text \<open>The events a call added to the trace.\<close>

definition new_events :: "('df, 'row) world \<Rightarrow> ('df, 'row) world \<Rightarrow> ('df, 'row) event list" where
  "new_events w w' = drop (length (trace w)) (trace w')"

fun is_fetch :: "('df, 'row) event \<Rightarrow> bool" where
  "is_fetch (FetchData b q sql t u p d h po dr) = True"
| "is_fetch ev = False"

text \<open>Constructing an \<open>Nlp\<close> or a \<open>Database\<close> loads the tables and schemas anew.\<close>

fun is_schema_load :: "('df, 'row) event \<Rightarrow> bool" where
  "is_schema_load (NlpInit dd sd s3 k sk) = True"
| "is_schema_load (DatabaseInit dd sd s3 k sk) = True"
| "is_schema_load ev = False"

fun is_log :: "('df, 'row) event \<Rightarrow> bool" where
  "is_log (LoggerInfo l f a) = True"
| "is_log ev = False"

fun is_select :: "('df, 'row) event \<Rightarrow> bool" where
  "is_select (CsvSelect q) = True"
| "is_select ev = False"

text \<open>The distinctness flags that reached the query synthesizer.\<close>

fun synth_flag :: "('df, 'row) event \<Rightarrow> bool list" where
  "synth_flag (GetSqlQuery df q d) = [d]"
| "synth_flag ev = []"

definition synth_flags :: "('df, 'row) event list \<Rightarrow> bool list" where
  "synth_flags evs = concat (map synth_flag evs)"

subsection \<open>The query synthesizer, from the spec\<close>

text \<open>
  Modelled from the spec: \<open>Nlp.get_sql_query\<close>, the query synthesizer that line 142 and
  line 147 call, is in nlp.py, which is not among the sources. Section 3 of the spec gives
  the query plan: target table, selected columns (none means all), predicates (column,
  operator, literal), an optional aggregation with GROUP BY columns, the distinct flag and
  an optional ORDER BY column with its direction. Section 4.3 gives the stages: stages 1
  to 3 (column resolution, aggregation detection, predicate extraction) read the question
  and the table; stage 4 sets distinctness from the caller-supplied flag, not from the
  text; stage 5 renders the plan in the fixed order SELECT, FROM, WHERE, GROUP BY,
  ORDER BY and fails with \<open>RenderError\<close> when the plan names a column that the schema does
  not have. How stages 1 to 3 match words to columns is left open by the spec, so they are a
  parameter (\<open>stages\<close>), as is the schema of a table (\<open>schema_of\<close>).
\<close>

datatype comparison = Eq | Ne | Gt | Lt | Ge | Le | Like

datatype aggregate = AggCount | AggSum | AggAvg | AggMin | AggMax

record query_plan =
  plan_table :: string
  plan_columns :: "string list"
  plan_predicates :: "(string \<times> comparison \<times> string) list"
  plan_aggregation :: "(string \<times> aggregate) option"
  plan_group_by :: "string list"
  plan_distinct :: bool
  plan_order_by :: "(string \<times> bool) option"

fun comparison_text :: "comparison \<Rightarrow> string" where
  "comparison_text Eq = ''=''"
| "comparison_text Ne = ''!=''"
| "comparison_text Gt = ''>''"
| "comparison_text Lt = ''<''"
| "comparison_text Ge = ''>=''"
| "comparison_text Le = ''<=''"
| "comparison_text Like = ''LIKE''"

fun aggregate_text :: "aggregate \<Rightarrow> string" where
  "aggregate_text AggCount = ''COUNT''"
| "aggregate_text AggSum = ''SUM''"
| "aggregate_text AggAvg = ''AVG''"
| "aggregate_text AggMin = ''MIN''"
| "aggregate_text AggMax = ''MAX''"

fun join :: "string \<Rightarrow> string list \<Rightarrow> string" where
  "join sep [] = []"
| "join sep [x] = x"
| "join sep (x # y # ys) = x @ sep @ join sep (y # ys)"

text \<open>The columns a plan names.\<close>

definition referenced :: "query_plan \<Rightarrow> string list" where
  "referenced p =
     plan_columns p @ map fst (plan_predicates p)
     @ (case plan_aggregation p of None \<Rightarrow> [] | Some (c, f) \<Rightarrow> [c])
     @ plan_group_by p
     @ (case plan_order_by p of None \<Rightarrow> [] | Some (c, desc) \<Rightarrow> [c])"

text \<open>What follows the keyword SELECT and the optional modifier DISTINCT.\<close>

definition render_rest :: "query_plan \<Rightarrow> string" where
  "render_rest p =
     (let items = plan_columns p @ plan_group_by p
            @ (case plan_aggregation p of
                 None \<Rightarrow> []
               | Some (c, f) \<Rightarrow> [aggregate_text f @ ''('' @ c @ '')''])
      in (if items = [] then ''*'' else join '', '' items)
         @ '' FROM '' @ plan_table p
         @ (if plan_predicates p = [] then []
            else '' WHERE '' @ join '' AND ''
                   (map (\<lambda>(c, op, v). c @ '' '' @ comparison_text op @ '' '' @ v)
                      (plan_predicates p)))
         @ (if plan_group_by p = [] then [] else '' GROUP BY '' @ join '', '' (plan_group_by p))
         @ (case plan_order_by p of
              None \<Rightarrow> []
            | Some (c, desc) \<Rightarrow> '' ORDER BY '' @ c @ (if desc then '' DESC'' else '' ASC'')))"

definition render :: "string list \<Rightarrow> query_plan \<Rightarrow> py_exn + string" where
  "render schema p =
     (if list_all (\<lambda>c. c \<in> set schema) (referenced p)
      then Inr (''SELECT '' @ (if plan_distinct p then ''DISTINCT '' else []) @ render_rest p)
      else Inl RenderError)"

text \<open>Stages 1 to 3, then stage 4 on the caller's flag, then rendering.\<close>

definition spec_get_sql_query ::
  "('df \<Rightarrow> string list) \<Rightarrow> ('nlp \<Rightarrow> 'df \<Rightarrow> string \<Rightarrow> py_exn + query_plan)
   \<Rightarrow> 'nlp \<Rightarrow> 'df \<Rightarrow> string \<Rightarrow> bool \<Rightarrow> py_exn + string" where
  "spec_get_sql_query schema_of stages nlp df question distinct' =
     (case stages nlp df question of
        Inl e \<Rightarrow> Inl e
      | Inr plan \<Rightarrow> render (schema_of df) (plan\<lparr>plan_distinct := distinct'\<rparr>))"

subsection \<open>A sample session\<close>

text \<open>\<open>Agent(data_dir)\<close> with the defaults of line 58.\<close>

definition default_agent :: "'df data_source \<Rightarrow> 'df agent" where
  "default_agent dd =
     \<lparr>data_dir = dd, schema_dir = None, db_type = ''sqlite'', username = [], password = [],
      database = ''db'', host = ''localhost'', port = None, drop_db = True, aws_db = False,
      aws_s3 = False, access_key_id = [], secret_access_key = []\<rparr>"

text \<open>A fresh process: the root logger starts at \<open>WARNING\<close>, nothing printed, no calls made.\<close>

definition world0 :: "(string, string list) world" where
  "world0 = \<lparr>root_level = WARNING, stdout = [], trace = []\<rparr>"

text \<open>
  Concrete collaborators on which the theorems below are instantiated: one table
  \<open>orders\<close>, selected by a question that mentions it; a synthesizer that honours the
  flag; a backend that rejects a missing query; a chart renderer that knows bar charts only.
\<close>

definition sample_env :: "(string, unit, unit, string list) env" where
  "sample_env =
     \<lparr>Nlp = (\<lambda>dd sd s3 k sk. Inr ()),
      csv_select = (\<lambda>nlp q. Inr (if q = ''count orders'' then Some ''orders'' else None)),
      get_sql_query = (\<lambda>nlp df q d.
         Inr ((if d then ''SELECT DISTINCT COUNT(*) FROM '' else ''SELECT COUNT(*) FROM '') @ df)),
      Database = (\<lambda>dd sd s3 k sk. Inr ()),
      fetch_data = (\<lambda>db q sql t u p d h po dr.
         case sql of None \<Rightarrow> Inl (ExecutionError ''no query'') | Some s \<Rightarrow> Inr [[''3'']]),
      fetch_data_aws = (\<lambda>db q sql t u p d h po dr.
         case sql of None \<Rightarrow> Inl (ExecutionError ''no query'') | Some s \<Rightarrow> Inr [[''7'']]),
      Chart = (\<lambda>c sql a s. if c = ''bar'' then Inr () else Inl (ChartError c))\<rparr>"

text \<open>
  An agent configured for S3 with a schema folder, and collaborators whose constructors
  look at what they are given: \<open>Nlp\<close> refuses S3 without an access key, \<open>Database\<close> refuses
  the schema folder \<open>schemas\<close>.
\<close>

definition s3_agent :: "string agent" where
  "s3_agent =
     \<lparr>data_dir = Path ''bucket'', schema_dir = Some ''schemas'', db_type = ''postgres'',
      username = ''ann'', password = ''pw'', database = ''sales'', host = ''db.example'',
      port = Some ''5432'', drop_db = False, aws_db = True, aws_s3 = True,
      access_key_id = ''AKIA'', secret_access_key = ''secret''\<rparr>"

definition picky_env :: "(string, unit, unit, string list) env" where
  "picky_env =
     sample_env
       \<lparr>Nlp := (\<lambda>dd sd s3 k sk. if s3 \<and> k = [] then Inl SchemaError else Inr ()),
        Database := (\<lambda>dd sd s3 k sk.
           if sd = Some ''schemas'' then Inl (ExecutionError ''schemas'') else Inr ())\<rparr>"

text \<open>
  The sample collaborators with the synthesizer of the spec: one table \<open>orders\<close> with
  three columns, and stages 1 to 3 that select the column \<open>customer\<close> and hand over a plan
  already marked distinct.
\<close>

definition spec_env :: "(string, unit, unit, string list) env" where
  "spec_env =
     sample_env
       \<lparr>get_sql_query :=
          spec_get_sql_query
            (\<lambda>df. if df = ''orders'' then [''customer'', ''amount'', ''date''] else [])
            (\<lambda>nlp df q.
               Inr \<lparr>plan_table = df, plan_columns = [''customer''], plan_predicates = [],
                    plan_aggregation = None, plan_group_by = [], plan_distinct = True,
                    plan_order_by = None\<rparr>)\<rparr>"

section \<open>Properties\<close>

lemmas effect_defs = emit_def py_print_def setLevel_def logger_info_def get_logger_def

lemmas outcome_splits = sum.splits option.splits data_source.splits prod.splits

subsection \<open>The shape of a call\<close>

text \<open>
  \<open>get_query\<close> appends to the trace: first the construction of \<open>Nlp\<close>, then calls that are
  neither backend calls nor constructions and that carry the caller's distinctness flag.
  \<open>query_db\<close> is then followed branch by branch from the outcome of \<open>get_query\<close>.
\<close>

lemma get_query_events:
  "\<exists>evs. trace (snd (get_query E self question verbose d w)) = trace w @ nlp_event self # evs
     \<and> filter is_fetch evs = [] \<and> filter is_schema_load evs = []
     \<and> set (synth_flags evs) \<subseteq> {d}"
  by (auto simp add: get_query_def select_df_def effect_defs Let_def synth_flags_def
      split: outcome_splits)

lemma query_db_raises_early:
  "get_query E self question verbose d w = (Inl e, w1) \<Longrightarrow>
   query_db E self question verbose chart sz d w = (Inl e, w1)"
  by (simp add: query_db_def)

lemma query_db_no_database:
  "get_query E self question verbose d w = (Inr query, w1) \<Longrightarrow> make_database E self = Inl e \<Longrightarrow>
   query_db E self question verbose chart sz d w = (Inl e, emit (database_event self) w1)"
  by (simp add: query_db_def)

lemma query_db_fetch_raises:
  "get_query E self question verbose d w = (Inr query, w1) \<Longrightarrow> make_database E self = Inr db \<Longrightarrow>
   fetch_answer E self db question query = Inl e \<Longrightarrow>
   query_db E self question verbose chart sz d w =
     (Inl e, emit (fetch_event self question query) (emit (database_event self) w1))"
  by (simp add: query_db_def)

lemma query_db_no_chart:
  "get_query E self question verbose d w = (Inr query, w1) \<Longrightarrow> make_database E self = Inr db \<Longrightarrow>
   fetch_answer E self db question query = Inr answer \<Longrightarrow>
   query_db E self question verbose None sz d w =
     (Inr answer, emit (fetch_event self question query) (emit (database_event self) w1))"
  by (simp add: query_db_def)

lemma query_db_chart:
  "get_query E self question verbose d w = (Inr query, w1) \<Longrightarrow> make_database E self = Inr db \<Longrightarrow>
   fetch_answer E self db question query = Inr answer \<Longrightarrow>
   query_db E self question verbose (Some c) sz d w =
     (case Chart E c query answer sz of Inl e \<Rightarrow> Inl e | Inr u \<Rightarrow> Inr answer,
      emit (ChartInit c query answer sz)
        (emit (fetch_event self question query) (emit (database_event self) w1)))"
  by (simp add: query_db_def split: sum.splits)

lemma query_db_trace:
  "trace (snd (query_db E self question verbose chart sz d w)) =
     trace (snd (get_query E self question verbose d w)) @
       (case fst (get_query E self question verbose d w) of
          Inl e \<Rightarrow> []
        | Inr query \<Rightarrow> database_event self #
            (case make_database E self of
               Inl e \<Rightarrow> []
             | Inr db \<Rightarrow> fetch_event self question query #
                 (case fetch_answer E self db question query of
                    Inl e \<Rightarrow> []
                  | Inr answer \<Rightarrow>
                      (case chart of None \<Rightarrow> [] | Some c \<Rightarrow> [ChartInit c query answer sz]))))"
  by (auto simp add: query_db_def emit_def Let_def split: outcome_splits)

lemma get_query_new_events:
  "\<exists>evs. new_events w (snd (get_query E self question verbose d w)) = nlp_event self # evs
     \<and> filter is_fetch evs = [] \<and> filter is_schema_load evs = []
     \<and> set (synth_flags evs) \<subseteq> {d}"
  using get_query_events [of E self question verbose d w]
  by (auto simp add: new_events_def)

lemma query_db_events:
  "\<exists>evs. new_events w (snd (query_db E self question verbose chart sz d w)) =
      nlp_event self # evs @
       (case fst (get_query E self question verbose d w) of
          Inl e \<Rightarrow> []
        | Inr query \<Rightarrow> database_event self #
            (case make_database E self of
               Inl e \<Rightarrow> []
             | Inr db \<Rightarrow> fetch_event self question query #
                 (case fetch_answer E self db question query of
                    Inl e \<Rightarrow> []
                  | Inr answer \<Rightarrow>
                      (case chart of None \<Rightarrow> [] | Some c \<Rightarrow> [ChartInit c query answer sz]))))
     \<and> filter is_fetch evs = [] \<and> filter is_schema_load evs = []
     \<and> set (synth_flags evs) \<subseteq> {d}"
proof -
  obtain evs where evs:
    "trace (snd (get_query E self question verbose d w)) = trace w @ nlp_event self # evs"
    "filter is_fetch evs = []" "filter is_schema_load evs = []" "set (synth_flags evs) \<subseteq> {d}"
    using get_query_events [of E self question verbose d w] by blast
  show ?thesis
    using evs by (intro exI [of _ evs]) (simp add: new_events_def query_db_trace)
qed

lemma event_kinds [simp]:
  "is_fetch (nlp_event self) = False"
  "is_fetch (database_event self) = False"
  "is_fetch (fetch_event self question query) = True"
  "is_schema_load (nlp_event self) = True"
  "is_schema_load (database_event self) = True"
  "is_schema_load (fetch_event self question query) = False"
  "synth_flag (nlp_event self) = []"
  "synth_flag (database_event self) = []"
  "synth_flag (fetch_event self question query) = []"
  by (simp_all add: nlp_event_def database_event_def fetch_event_def)

lemma get_query_selected:
  assumes "make_nlp E self = Inr nlp"
      and "select_df E self nlp question (emit (nlp_event self) w) = (Inr (Some df), w1)"
  shows "get_query E self question verbose d w =
           (case get_sql_query E nlp df question d of
              Inl e \<Rightarrow> (Inl e, emit (GetSqlQuery df question d)
                               (setLevel (if verbose then INFO else WARNING) w1))
            | Inr sql_query \<Rightarrow>
                (Inr (Some sql_query),
                 if verbose
                 then logger_info (get_logger dunder_name) ''SQL query = %s'' sql_query
                        (emit (GetSqlQuery df question d) (setLevel INFO w1))
                 else emit (GetSqlQuery df question d) (setLevel WARNING w1)))"
  using assms by (simp add: get_query_def Let_def split: sum.splits)

lemma select_df_trace:
  "select_df E self nlp question w0 = (r, w1) \<Longrightarrow>
   root_level w1 = root_level w0 \<and> stdout w1 = stdout w0
   \<and> trace w1 = trace w0 @ (case data_dir self of DataFrame df \<Rightarrow> [] | Path p \<Rightarrow> [CsvSelect question])"
  by (auto simp add: select_df_def emit_def split: data_source.splits)

lemma synth_flags_simps [simp]:
  "synth_flags [] = []"
  "synth_flags (ev # evs) = synth_flag ev @ synth_flags evs"
  "synth_flags (evs @ evs') = synth_flags evs @ synth_flags evs'"
  by (simp_all add: synth_flags_def)

lemma get_query_flags:
  "set (synth_flags (new_events w (snd (get_query E self question verbose d w)))) \<subseteq> {d}"
proof -
  obtain evs where evs:
    "new_events w (snd (get_query E self question verbose d w)) = nlp_event self # evs"
    "set (synth_flags evs) \<subseteq> {d}"
    using get_query_new_events [of w E self question verbose d] by blast
  have "synth_flags (new_events w (snd (get_query E self question verbose d w))) =
          synth_flags evs"
    unfolding evs(1) by simp
  then show ?thesis using evs(2) by (simp only:)
qed

lemma query_db_flags:
  "synth_flags (new_events w (snd (query_db E self question verbose chart sz d w))) =
     synth_flags (new_events w (snd (get_query E self question verbose d w)))"
proof -
  obtain evs where evs:
    "trace (snd (get_query E self question verbose d w)) = trace w @ nlp_event self # evs"
    using get_query_events [of E self question verbose d w] by blast
  show ?thesis
    by (simp add: new_events_def query_db_trace evs split: outcome_splits)
qed

subsection \<open>The sample session, evaluated\<close>

lemmas sample_defs = sample_env_def default_agent_def world0_def make_nlp_def nlp_event_def
  make_database_def database_event_def fetch_answer_def fetch_event_def dunder_name_def

lemma sample_get_query:
  "get_query sample_env (default_agent (Path ''data'')) ''count orders'' False False world0 =
     (Inr (Some ''SELECT COUNT(*) FROM orders''),
      \<lparr>root_level = WARNING, stdout = [],
         trace = [NlpInit (Path ''data'') None False [] [], CsvSelect ''count orders'',
                  GetSqlQuery ''orders'' ''count orders'' False]\<rparr>)"
  by (simp add: get_query_def select_df_def effect_defs sample_defs)

lemma sample_database: "make_database sample_env (default_agent (Path ''data'')) = Inr ()"
  by (simp add: sample_defs)

lemma sample_fetch:
  "fetch_answer sample_env (default_agent (Path ''data'')) () ''count orders''
     (Some ''SELECT COUNT(*) FROM orders'') = Inr [[''3'']]"
  by (simp add: sample_defs)

lemma sample_no_table:
  "get_query sample_env (default_agent (Path ''data'')) ''hello'' False False world0 =
     (Inr None,
      \<lparr>root_level = WARNING, stdout = [not_understood_msg],
         trace = [NlpInit (Path ''data'') None False [] [], CsvSelect ''hello'']\<rparr>)"
  by (simp add: get_query_def select_df_def effect_defs sample_defs)

lemma sample_nlp: "make_nlp sample_env (default_agent (Path ''data'')) = Inr ()"
  by (simp add: sample_defs)

lemma sample_select:
  "select_df sample_env (default_agent (Path ''data'')) () ''count orders''
     (emit (nlp_event (default_agent (Path ''data''))) world0) =
     (Inr (Some ''orders''),
      \<lparr>root_level = WARNING, stdout = [],
         trace = [NlpInit (Path ''data'') None False [] [], CsvSelect ''count orders'']\<rparr>)"
  by (simp add: select_df_def emit_def sample_defs)

subsection \<open>No table selected\<close>

text \<open>
  C1. When the \<open>Nlp\<close> object was built from the agent's attributes and its selector
  \<open>csv_select\<close> returns \<open>None\<close> for the question, \<open>get_query\<close> prints the line
  \<open>Sorry,didn't catch that\<close>, returns \<open>None\<close> and raises nothing; besides the two
  collaborator calls it leaves the world as it was.
\<close>

theorem get_query_no_table:
  assumes "Nlp E (data_dir self) (schema_dir self) (aws_s3 self) (access_key_id self)
             (secret_access_key self) = Inr nlp"
      and "data_dir self = Path p"
      and "csv_select E nlp question = Inr None"
  shows "get_query E self question verbose distinct' w =
           (Inr None,
            w\<lparr>stdout := stdout w @ [''Sorry,didn't catch that''],
              trace := trace w @
                [NlpInit (data_dir self) (schema_dir self) (aws_s3 self) (access_key_id self)
                   (secret_access_key self),
                 CsvSelect question]\<rparr>)"
  using assms
  by (simp add: get_query_def select_df_def effect_defs make_nlp_def nlp_event_def
      not_understood_msg_def)

theorem get_query_no_table_witness:
  "Nlp sample_env (Path ''data'') None False [] [] = Inr ()
   \<and> csv_select sample_env () ''hello'' = Inr None
   \<and> get_query sample_env (default_agent (Path ''data'')) ''hello'' True False world0 =
        (Inr None,
         \<lparr>root_level = WARNING, stdout = [''Sorry,didn't catch that''],
            trace = [NlpInit (Path ''data'') None False [] [], CsvSelect ''hello'']\<rparr>)"
proof -
  have h1: "Nlp sample_env (data_dir (default_agent (Path ''data'')))
              (schema_dir (default_agent (Path ''data''))) (aws_s3 (default_agent (Path ''data'')))
              (access_key_id (default_agent (Path ''data'')))
              (secret_access_key (default_agent (Path ''data''))) = Inr ()"
    by (simp add: sample_env_def)
  have h2: "data_dir (default_agent (Path ''data'')) = Path ''data''"
    by (simp add: default_agent_def)
  have h3: "csv_select sample_env () ''hello'' = Inr None"
    by (simp add: sample_env_def)
  have n: "Nlp sample_env (Path ''data'') None False [] [] = Inr ()"
    by (simp add: sample_env_def)
  have "get_query sample_env (default_agent (Path ''data'')) ''hello'' True False world0 =
        (Inr None,
         \<lparr>root_level = WARNING, stdout = [''Sorry,didn't catch that''],
            trace = [NlpInit (Path ''data'') None False [] [], CsvSelect ''hello'']\<rparr>)"
    unfolding get_query_no_table [OF h1 h2 h3, of True False world0]
    by (simp add: world0_def default_agent_def)
  with n h3 show ?thesis by (intro conjI)
qed

subsection \<open>Verbosity\<close>

text \<open>
  C2. For every agent, question, distinctness flag and world, \<open>get_query\<close> has the same
  outcome (the same query string, \<open>None\<close>, or the same exception) with \<open>verbose\<close> set and
  unset. The two runs also print the same lines and make the same collaborator calls; they
  differ in the logging calls only.
\<close>

theorem get_query_verbose_noninterference:
  "fst (get_query E self question True distinct' w) =
     fst (get_query E self question False distinct' w)
   \<and> stdout (snd (get_query E self question True distinct' w)) =
       stdout (snd (get_query E self question False distinct' w))
   \<and> filter (\<lambda>ev. \<not> is_log ev) (trace (snd (get_query E self question True distinct' w))) =
       filter (\<lambda>ev. \<not> is_log ev) (trace (snd (get_query E self question False distinct' w)))"
  by (auto simp add: get_query_def select_df_def effect_defs Let_def split: outcome_splits)

subsection \<open>What \<open>query_db\<close> returns\<close>

text \<open>
  C3. Whatever the chart argument, a value returned by \<open>query_db\<close> is exactly the rows
  that \<open>fetch_data_aws\<close> (when \<open>aws_db\<close> is set) or \<open>fetch_data\<close> (otherwise) produced for the
  query \<open>get_query\<close> rendered and the agent's connection attributes. Conversely, when that
  method has produced rows and chart rendering, if requested, returns, \<open>query_db\<close> returns
  these rows unchanged; a chart argument adds the call to \<open>Chart\<close> to the trace and nothing
  else. (A renderer that raises is treated in the next subsection.)
\<close>

theorem query_db_returns_backend_rows:
  "(fst (query_db E self question verbose chart sz distinct' w) = Inr a \<longrightarrow>
      (\<exists>query db. fst (get_query E self question verbose distinct' w) = Inr query
          \<and> Database E (data_dir self) (schema_dir self) (aws_s3 self) (access_key_id self)
                (secret_access_key self) = Inr db
          \<and> (if aws_db self then fetch_data_aws E db else fetch_data E db) question query
                (db_type self) (username self) (password self) (database self) (host self)
                (port self) (drop_db self) = Inr a))
   \<and> (get_query E self question verbose distinct' w = (Inr query, w1)
        \<and> Database E (data_dir self) (schema_dir self) (aws_s3 self) (access_key_id self)
              (secret_access_key self) = Inr db
        \<and> (if aws_db self then fetch_data_aws E db else fetch_data E db) question query
              (db_type self) (username self) (password self) (database self) (host self)
              (port self) (drop_db self) = Inr answer
        \<and> (\<forall>c. chart = Some c \<longrightarrow> Chart E c query answer sz = Inr ()) \<longrightarrow>
      query_db E self question verbose chart sz distinct' w =
        (Inr answer,
         w1\<lparr>trace := trace w1 @
            [DatabaseInit (data_dir self) (schema_dir self) (aws_s3 self) (access_key_id self)
               (secret_access_key self),
             FetchData (if aws_db self then Aws else Local) question query (db_type self)
               (username self) (password self) (database self) (host self) (port self)
               (drop_db self)] @
            (case chart of None \<Rightarrow> [] | Some c \<Rightarrow> [ChartInit c query answer sz])\<rparr>))"
proof (intro conjI impI)
  assume "fst (query_db E self question verbose chart sz distinct' w) = Inr a"
  then have "\<exists>query db. fst (get_query E self question verbose distinct' w) = Inr query
          \<and> make_database E self = Inr db
          \<and> fetch_answer E self db question query = Inr a"
    by (auto simp add: query_db_def Let_def split: outcome_splits)
  then show "\<exists>query db. fst (get_query E self question verbose distinct' w) = Inr query
          \<and> Database E (data_dir self) (schema_dir self) (aws_s3 self) (access_key_id self)
                (secret_access_key self) = Inr db
          \<and> (if aws_db self then fetch_data_aws E db else fetch_data E db) question query
                (db_type self) (username self) (password self) (database self) (host self)
                (port self) (drop_db self) = Inr a"
    by (simp only: make_database_def fetch_answer_def Let_def)
next
  assume h: "get_query E self question verbose distinct' w = (Inr query, w1)
        \<and> Database E (data_dir self) (schema_dir self) (aws_s3 self) (access_key_id self)
              (secret_access_key self) = Inr db
        \<and> (if aws_db self then fetch_data_aws E db else fetch_data E db) question query
              (db_type self) (username self) (password self) (database self) (host self)
              (port self) (drop_db self) = Inr answer
        \<and> (\<forall>c. chart = Some c \<longrightarrow> Chart E c query answer sz = Inr ())"
  then have gq: "get_query E self question verbose distinct' w = (Inr query, w1)"
    and db: "make_database E self = Inr db"
    and fa: "fetch_answer E self db question query = Inr answer"
    by (simp_all only: make_database_def fetch_answer_def Let_def)
  show "query_db E self question verbose chart sz distinct' w =
        (Inr answer,
         w1\<lparr>trace := trace w1 @
            [DatabaseInit (data_dir self) (schema_dir self) (aws_s3 self) (access_key_id self)
               (secret_access_key self),
             FetchData (if aws_db self then Aws else Local) question query (db_type self)
               (username self) (password self) (database self) (host self) (port self)
               (drop_db self)] @
            (case chart of None \<Rightarrow> [] | Some c \<Rightarrow> [ChartInit c query answer sz])\<rparr>)"
  proof (cases chart)
    case None
    then show ?thesis
      by (simp add: query_db_no_chart [OF gq db fa] emit_def database_event_def
          fetch_event_def)
  next
    case (Some c)
    with h have "Chart E c query answer sz = Inr ()" by simp
    with Some show ?thesis
      by (simp add: query_db_chart [OF gq db fa] emit_def database_event_def
          fetch_event_def)
  qed
qed

theorem query_db_returns_backend_rows_witness:
  "fetch_data sample_env () ''count orders'' (Some ''SELECT COUNT(*) FROM orders'')
     ''sqlite'' [] [] ''db'' ''localhost'' None True = Inr [[''3'']]
   \<and> Chart sample_env ''bar'' (Some ''SELECT COUNT(*) FROM orders'') [[''3'']] (10, 10) = Inr ()
   \<and> query_db sample_env (default_agent (Path ''data'')) ''count orders'' False
        (Some ''bar'') (10, 10) False world0 =
       (Inr [[''3'']],
        \<lparr>root_level = WARNING, stdout = [],
           trace = [NlpInit (Path ''data'') None False [] [], CsvSelect ''count orders'',
                    GetSqlQuery ''orders'' ''count orders'' False,
                    DatabaseInit (Path ''data'') None False [] [],
                    FetchData Local ''count orders'' (Some ''SELECT COUNT(*) FROM orders'')
                      ''sqlite'' [] [] ''db'' ''localhost'' None True,
                    ChartInit ''bar'' (Some ''SELECT COUNT(*) FROM orders'') [[''3'']]
                      (10, 10)]\<rparr>)"
proof -
  have fd: "fetch_data sample_env () ''count orders'' (Some ''SELECT COUNT(*) FROM orders'')
     ''sqlite'' [] [] ''db'' ''localhost'' None True = Inr [[''3'']]"
    by (simp add: sample_env_def)
  have ch: "Chart sample_env ''bar'' (Some ''SELECT COUNT(*) FROM orders'') [[''3'']] (10, 10)
              = Inr ()"
    by (simp add: sample_env_def)
  have ok: "\<forall>c. Some ''bar'' = Some c \<longrightarrow>
              Chart sample_env c (Some ''SELECT COUNT(*) FROM orders'') [[''3'']] (10, 10) = Inr ()"
    using ch by simp
  have db: "Database sample_env (data_dir (default_agent (Path ''data'')))
              (schema_dir (default_agent (Path ''data''))) (aws_s3 (default_agent (Path ''data'')))
              (access_key_id (default_agent (Path ''data'')))
              (secret_access_key (default_agent (Path ''data''))) = Inr ()"
    by (simp add: sample_env_def)
  have fa: "(if aws_db (default_agent (Path ''data'')) then fetch_data_aws sample_env ()
             else fetch_data sample_env ()) ''count orders''
              (Some ''SELECT COUNT(*) FROM orders'')
              (db_type (default_agent (Path ''data''))) (username (default_agent (Path ''data'')))
              (password (default_agent (Path ''data''))) (database (default_agent (Path ''data'')))
              (host (default_agent (Path ''data''))) (port (default_agent (Path ''data'')))
              (drop_db (default_agent (Path ''data''))) = Inr [[''3'']]"
    by (simp add: sample_env_def default_agent_def)
  note pre = conjI [OF sample_get_query conjI [OF db conjI [OF fa ok]]]
  have "query_db sample_env (default_agent (Path ''data'')) ''count orders'' False
        (Some ''bar'') (10, 10) False world0 =
       (Inr [[''3'']],
        \<lparr>root_level = WARNING, stdout = [],
           trace = [NlpInit (Path ''data'') None False [] [], CsvSelect ''count orders'',
                    GetSqlQuery ''orders'' ''count orders'' False,
                    DatabaseInit (Path ''data'') None False [] [],
                    FetchData Local ''count orders'' (Some ''SELECT COUNT(*) FROM orders'')
                      ''sqlite'' [] [] ''db'' ''localhost'' None True,
                    ChartInit ''bar'' (Some ''SELECT COUNT(*) FROM orders'') [[''3'']]
                      (10, 10)]\<rparr>)"
    unfolding query_db_returns_backend_rows [THEN conjunct2, THEN mp, OF pre]
    by (simp add: default_agent_def)
  with fd ch show ?thesis by (intro conjI)
qed

subsection \<open>A failing chart\<close>

text \<open>
  C4 does not hold: lines 180 and 181 call \<open>Chart\<close> with no handler around the call, so an
  exception raised while rendering leaves \<open>query_db\<close>. In the sample session the backend
  has produced its rows, a pie chart is refused by the renderer, and the caller gets the
  renderer's exception where the rows were expected.
\<close>

theorem query_db_chart_failure_counterexample:
  "fetch_answer sample_env (default_agent (Path ''data'')) () ''count orders''
     (Some ''SELECT COUNT(*) FROM orders'') = Inr [[''3'']]
   \<and> fst (query_db sample_env (default_agent (Path ''data'')) ''count orders'' False
          (Some ''pie'') (10, 10) False world0) = Inl (ChartError ''pie'')"
  by (simp add: sample_fetch query_db_chart [OF sample_get_query sample_database sample_fetch])
     (simp add: sample_env_def)

text \<open>
  C4, as amended. For every call with a chart argument in which the backend has produced
  its rows, an exception raised by chart rendering is propagated unchanged to the caller:
  \<open>query_db\<close> raises it after the backend call and the call to \<open>Chart\<close>, and returns no rows.
\<close>

theorem query_db_chart_failure_propagates:
  assumes "get_query E self question verbose distinct' w = (Inr query, w1)"
      and "make_database E self = Inr db"
      and "fetch_answer E self db question query = Inr answer"
      and "Chart E c query answer sz = Inl e"
  shows "query_db E self question verbose (Some c) sz distinct' w =
           (Inl e, emit (ChartInit c query answer sz)
                     (emit (fetch_event self question query) (emit (database_event self) w1)))"
  using assms by (simp add: query_db_chart)

theorem query_db_chart_failure_propagates_witness:
  "Chart sample_env ''line'' (Some ''SELECT COUNT(*) FROM orders'') [[''3'']] (4, 3)
     = Inl (ChartError ''line'')
   \<and> query_db sample_env (default_agent (Path ''data'')) ''count orders'' False
        (Some ''line'') (4, 3) False world0 =
       (Inl (ChartError ''line''),
        \<lparr>root_level = WARNING, stdout = [],
           trace = [NlpInit (Path ''data'') None False [] [], CsvSelect ''count orders'',
                    GetSqlQuery ''orders'' ''count orders'' False,
                    DatabaseInit (Path ''data'') None False [] [],
                    FetchData Local ''count orders'' (Some ''SELECT COUNT(*) FROM orders'')
                      ''sqlite'' [] [] ''db'' ''localhost'' None True,
                    ChartInit ''line'' (Some ''SELECT COUNT(*) FROM orders'') [[''3'']] (4, 3)]\<rparr>)"
proof -
  have ch: "Chart sample_env ''line'' (Some ''SELECT COUNT(*) FROM orders'') [[''3'']] (4, 3)
              = Inl (ChartError ''line'')"
    by (simp add: sample_env_def)
  show ?thesis
    using ch query_db_chart_failure_propagates
      [OF sample_get_query sample_database sample_fetch ch]
    by (simp add: emit_def database_event_def fetch_event_def default_agent_def)
qed

subsection \<open>One backend call\<close>

text \<open>
  C5. No call of \<open>query_db\<close> invokes the backend more than once. A call that gets as far as
  line 178, that is, one in which \<open>get_query\<close> and the \<open>Database\<close> constructor have returned,
  invokes it exactly once: \<open>fetch_data_aws\<close> when \<open>aws_db\<close> is set and \<open>fetch_data\<close> otherwise,
  with the question, the query and the agent's connection attributes. When that one call
  raises, \<open>query_db\<close> raises the same exception, with no further call.
\<close>

theorem query_db_fetch_once:
  "length (filter is_fetch
     (new_events w (snd (query_db E self question verbose chart sz distinct' w)))) \<le> 1
   \<and> (get_query E self question verbose distinct' w = (Inr query, w1)
        \<and> make_database E self = Inr db \<longrightarrow>
        filter is_fetch (new_events w (snd (query_db E self question verbose chart sz distinct' w)))
          = [FetchData (if aws_db self then Aws else Local) question query (db_type self)
               (username self) (password self) (database self) (host self) (port self)
               (drop_db self)]
        \<and> (\<forall>e. (if aws_db self then fetch_data_aws E db else fetch_data E db) question query
                  (db_type self) (username self) (password self) (database self) (host self)
                  (port self) (drop_db self) = Inl e
              \<longrightarrow> query_db E self question verbose chart sz distinct' w =
                   (Inl e, emit (fetch_event self question query)
                             (emit (database_event self) w1))))"
proof -
  obtain evs where evs:
    "new_events w (snd (query_db E self question verbose chart sz distinct' w)) =
      nlp_event self # evs @
       (case fst (get_query E self question verbose distinct' w) of
          Inl e \<Rightarrow> []
        | Inr query \<Rightarrow> database_event self #
            (case make_database E self of
               Inl e \<Rightarrow> []
             | Inr db \<Rightarrow> fetch_event self question query #
                 (case fetch_answer E self db question query of
                    Inl e \<Rightarrow> []
                  | Inr answer \<Rightarrow>
                      (case chart of None \<Rightarrow> [] | Some c \<Rightarrow> [ChartInit c query answer sz]))))"
    "filter is_fetch evs = []"
    using query_db_events [of w E self question verbose chart sz distinct'] by blast
  have once: "length (filter is_fetch
     (new_events w (snd (query_db E self question verbose chart sz distinct' w)))) \<le> 1"
    unfolding evs(1) using evs(2) by (simp split: outcome_splits)
  have reach:
    "filter is_fetch (new_events w (snd (query_db E self question verbose chart sz distinct' w)))
          = [FetchData (if aws_db self then Aws else Local) question query (db_type self)
               (username self) (password self) (database self) (host self) (port self)
               (drop_db self)]"
    if "get_query E self question verbose distinct' w = (Inr query, w1)"
       "make_database E self = Inr db"
    unfolding evs(1) using evs(2) that by (simp add: fetch_event_def split: outcome_splits)
  have fail: "query_db E self question verbose chart sz distinct' w =
                   (Inl e, emit (fetch_event self question query) (emit (database_event self) w1))"
    if "get_query E self question verbose distinct' w = (Inr query, w1)"
       "make_database E self = Inr db"
       "(if aws_db self then fetch_data_aws E db else fetch_data E db) question query
                  (db_type self) (username self) (password self) (database self) (host self)
                  (port self) (drop_db self) = Inl e" for e
  proof -
    have "fetch_answer E self db question query = Inl e"
      using that(3) by (simp add: fetch_answer_def)
    then show ?thesis using that(1,2) by (rule query_db_fetch_raises [rotated 2])
  qed
  show ?thesis using once reach fail by blast
qed

theorem query_db_fetch_once_witness:
  "filter is_fetch (new_events world0
      (snd (query_db sample_env (default_agent (Path ''data'')) ''hello'' False None (10, 10)
              False world0))) =
     [FetchData Local ''hello'' None ''sqlite'' [] [] ''db'' ''localhost'' None True]
   \<and> fst (query_db sample_env (default_agent (Path ''data'')) ''hello'' False None (10, 10)
            False world0) = Inl (ExecutionError ''no query'')"
proof -
  have pre: "get_query sample_env (default_agent (Path ''data'')) ''hello'' False False world0 =
               (Inr None,
                \<lparr>root_level = WARNING, stdout = [not_understood_msg],
                   trace = [NlpInit (Path ''data'') None False [] [], CsvSelect ''hello'']\<rparr>)
             \<and> make_database sample_env (default_agent (Path ''data'')) = Inr ()"
    using sample_no_table sample_database by (intro conjI)
  note T = query_db_fetch_once [THEN conjunct2, THEN mp, OF pre, of None "(10, 10)"]
  have raises:
    "(if aws_db (default_agent (Path ''data'')) then fetch_data_aws sample_env ()
      else fetch_data sample_env ()) ''hello'' None
        (db_type (default_agent (Path ''data''))) (username (default_agent (Path ''data'')))
        (password (default_agent (Path ''data''))) (database (default_agent (Path ''data'')))
        (host (default_agent (Path ''data''))) (port (default_agent (Path ''data'')))
        (drop_db (default_agent (Path ''data''))) = Inl (ExecutionError ''no query'')"
    by (simp add: sample_env_def default_agent_def)
  have calls: "filter is_fetch (new_events world0
      (snd (query_db sample_env (default_agent (Path ''data'')) ''hello'' False None (10, 10)
              False world0))) =
     [FetchData Local ''hello'' None ''sqlite'' [] [] ''db'' ''localhost'' None True]"
    using T [THEN conjunct1] by (simp add: default_agent_def)
  have "query_db sample_env (default_agent (Path ''data'')) ''hello'' False None (10, 10)
            False world0 =
          (Inl (ExecutionError ''no query''),
           emit (fetch_event (default_agent (Path ''data'')) ''hello'' None)
             (emit (database_event (default_agent (Path ''data'')))
                \<lparr>root_level = WARNING, stdout = [not_understood_msg],
                   trace = [NlpInit (Path ''data'') None False [] [], CsvSelect ''hello'']\<rparr>))"
    using T [THEN conjunct2, THEN spec, THEN mp, OF raises] .
  then have "fst (query_db sample_env (default_agent (Path ''data'')) ''hello'' False None
            (10, 10) False world0) = Inl (ExecutionError ''no query'')"
    by (simp only: fst_conv)
  with calls show ?thesis by (intro conjI)
qed

subsection \<open>The distinctness flag\<close>

text \<open>
  C6. In \<open>get_query\<close> and in \<open>query_db\<close>, every distinctness flag that reaches the query
  synthesizer is the flag the caller supplied, whatever the question says. When a table is
  selected, the synthesizer is called exactly once, with that flag, and its outcome is the
  outcome of \<open>get_query\<close>: the orchestrator neither computes the flag from the text nor
  alters it. With the synthesizer of the spec, the query that \<open>get_query\<close> returns and that
  \<open>query_db\<close> hands to the backend is \<open>SELECT\<close>, then \<open>DISTINCT\<close> exactly when the caller's
  flag is set, then a remainder rendered from what stages 1 to 3 made of the question and
  the table: the remainder does not depend on the flag, and nothing the question says, nor
  a plan that stages 1 to 3 already marked distinct, puts the modifier in or takes it out.
\<close>

theorem distinct_flag_forwarded:
  "set (synth_flags (new_events w (snd (get_query E self question verbose distinct' w))))
     \<subseteq> {distinct'}
   \<and> set (synth_flags
          (new_events w (snd (query_db E self question verbose chart sz distinct' w))))
     \<subseteq> {distinct'}
   \<and> (make_nlp E self = Inr nlp
        \<and> select_df E self nlp question (emit (nlp_event self) w) = (Inr (Some df), w1) \<longrightarrow>
      fst (get_query E self question verbose distinct' w) =
        map_sum (\<lambda>e. e) Some (get_sql_query E nlp df question distinct')
      \<and> synth_flags (new_events w (snd (get_query E self question verbose distinct' w))) =
          [distinct']
      \<and> synth_flags
          (new_events w (snd (query_db E self question verbose chart sz distinct' w))) =
          [distinct'])
   \<and> (get_sql_query E = spec_get_sql_query schema_of stages
        \<and> Nlp E (data_dir self) (schema_dir self) (aws_s3 self) (access_key_id self)
              (secret_access_key self) = Inr nlp
        \<and> (data_dir self = DataFrame df
             \<or> (\<exists>p. data_dir self = Path p) \<and> csv_select E nlp question = Inr (Some df))
        \<and> stages nlp df question = Inr plan
        \<and> list_all (\<lambda>c. c \<in> set (schema_of df)) (referenced plan) \<longrightarrow>
      fst (get_query E self question verbose distinct' w) =
        Inr (Some (''SELECT '' @ (if distinct' then ''DISTINCT '' else []) @ render_rest plan))
      \<and> (\<forall>db. Database E (data_dir self) (schema_dir self) (aws_s3 self)
                  (access_key_id self) (secret_access_key self) = Inr db \<longrightarrow>
            filter is_fetch
              (new_events w (snd (query_db E self question verbose chart sz distinct' w))) =
              [FetchData (if aws_db self then Aws else Local) question
                 (Some (''SELECT '' @ (if distinct' then ''DISTINCT '' else [])
                          @ render_rest plan))
                 (db_type self) (username self) (password self) (database self) (host self)
                 (port self) (drop_db self)]))"
proof (intro conjI impI allI)
  show "set (synth_flags (new_events w (snd (get_query E self question verbose distinct' w))))
     \<subseteq> {distinct'}"
    by (rule get_query_flags)
next
  show "set (synth_flags
          (new_events w (snd (query_db E self question verbose chart sz distinct' w))))
     \<subseteq> {distinct'}"
    unfolding query_db_flags by (rule get_query_flags)
next
  assume h: "make_nlp E self = Inr nlp
        \<and> select_df E self nlp question (emit (nlp_event self) w) = (Inr (Some df), w1)"
  then have gq: "get_query E self question verbose distinct' w =
           (case get_sql_query E nlp df question distinct' of
              Inl e \<Rightarrow> (Inl e, emit (GetSqlQuery df question distinct')
                               (setLevel (if verbose then INFO else WARNING) w1))
            | Inr sql_query \<Rightarrow>
                (Inr (Some sql_query),
                 if verbose
                 then logger_info (get_logger dunder_name) ''SQL query = %s'' sql_query
                        (emit (GetSqlQuery df question distinct') (setLevel INFO w1))
                 else emit (GetSqlQuery df question distinct') (setLevel WARNING w1)))"
    by (simp add: get_query_selected)
  from h have tr: "trace w1 = trace w @ nlp_event self #
       (case data_dir self of DataFrame df \<Rightarrow> [] | Path p \<Rightarrow> [CsvSelect question])"
    using select_df_trace [of E self nlp question "emit (nlp_event self) w" "Inr (Some df)" w1]
    by (simp add: emit_def)
  show "fst (get_query E self question verbose distinct' w) =
        map_sum (\<lambda>e. e) Some (get_sql_query E nlp df question distinct')"
    unfolding gq by (simp split: sum.splits)
  show g: "synth_flags (new_events w (snd (get_query E self question verbose distinct' w))) =
          [distinct']"
    unfolding gq using tr
    by (simp add: new_events_def effect_defs split: sum.splits data_source.splits)
  show "synth_flags
          (new_events w (snd (query_db E self question verbose chart sz distinct' w))) =
          [distinct']"
    unfolding query_db_flags by (rule g)
next
  assume H: "get_sql_query E = spec_get_sql_query schema_of stages
        \<and> Nlp E (data_dir self) (schema_dir self) (aws_s3 self) (access_key_id self)
              (secret_access_key self) = Inr nlp
        \<and> (data_dir self = DataFrame df
             \<or> (\<exists>p. data_dir self = Path p) \<and> csv_select E nlp question = Inr (Some df))
        \<and> stages nlp df question = Inr plan
        \<and> list_all (\<lambda>c. c \<in> set (schema_of df)) (referenced plan)"
  then have mk: "make_nlp E self = Inr nlp"
    by (simp only: make_nlp_def)
  from H have "fst (select_df E self nlp question (emit (nlp_event self) w)) = Inr (Some df)"
    by (auto simp add: select_df_def)
  then have sel: "select_df E self nlp question (emit (nlp_event self) w) =
                    (Inr (Some df), snd (select_df E self nlp question (emit (nlp_event self) w)))"
    by (simp add: prod_eq_iff)
  from H have syn: "get_sql_query E nlp df question distinct' =
      Inr (''SELECT '' @ (if distinct' then ''DISTINCT '' else []) @ render_rest plan)"
    by (simp add: spec_get_sql_query_def render_def referenced_def render_rest_def)
  show r: "fst (get_query E self question verbose distinct' w) =
        Inr (Some (''SELECT '' @ (if distinct' then ''DISTINCT '' else []) @ render_rest plan))"
    unfolding get_query_selected [OF mk sel] syn by simp
  fix db
  assume "Database E (data_dir self) (schema_dir self) (aws_s3 self)
                  (access_key_id self) (secret_access_key self) = Inr db"
  then have db: "make_database E self = Inr db"
    by (simp only: make_database_def)
  obtain evs where evs:
    "new_events w (snd (query_db E self question verbose chart sz distinct' w)) =
      nlp_event self # evs @
       (case fst (get_query E self question verbose distinct' w) of
          Inl e \<Rightarrow> []
        | Inr query \<Rightarrow> database_event self #
            (case make_database E self of
               Inl e \<Rightarrow> []
             | Inr db \<Rightarrow> fetch_event self question query #
                 (case fetch_answer E self db question query of
                    Inl e \<Rightarrow> []
                  | Inr answer \<Rightarrow>
                      (case chart of None \<Rightarrow> [] | Some c \<Rightarrow> [ChartInit c query answer sz]))))"
    "filter is_fetch evs = []"
    using query_db_events [of w E self question verbose chart sz distinct'] by blast
  have "filter is_fetch
          (new_events w (snd (query_db E self question verbose chart sz distinct' w))) =
        [fetch_event self question
           (Some (''SELECT '' @ (if distinct' then ''DISTINCT '' else []) @ render_rest plan))]"
    unfolding evs(1) r db using evs(2) by (simp split: outcome_splits)
  then show "filter is_fetch
              (new_events w (snd (query_db E self question verbose chart sz distinct' w))) =
              [FetchData (if aws_db self then Aws else Local) question
                 (Some (''SELECT '' @ (if distinct' then ''DISTINCT '' else [])
                          @ render_rest plan))
                 (db_type self) (username self) (password self) (database self) (host self)
                 (port self) (drop_db self)]"
    by (simp only: fetch_event_def)
qed

theorem distinct_flag_forwarded_witness:
  "fst (get_query sample_env (default_agent (Path ''data'')) ''count orders'' False True world0)
     = Inr (Some ''SELECT DISTINCT COUNT(*) FROM orders'')
   \<and> synth_flags (new_events world0
         (snd (get_query sample_env (default_agent (Path ''data'')) ''count orders'' False True
                 world0))) = [True]
   \<and> synth_flags (new_events world0
         (snd (query_db sample_env (default_agent (Path ''data'')) ''count orders'' False None
                 (10, 10) True world0))) = [True]
   \<and> fst (get_query spec_env (default_agent (DataFrame ''orders'')) ''distinct customers''
            False False world0) = Inr (Some ''SELECT customer FROM orders'')
   \<and> fst (get_query spec_env (default_agent (DataFrame ''orders'')) ''all customers''
            False True world0) = Inr (Some ''SELECT DISTINCT customer FROM orders'')
   \<and> filter is_fetch (new_events world0
         (snd (query_db spec_env (default_agent (DataFrame ''orders'')) ''distinct customers''
                 False None (10, 10) False world0))) =
       [FetchData Local ''distinct customers'' (Some ''SELECT customer FROM orders'')
          ''sqlite'' [] [] ''db'' ''localhost'' None True]"
proof -
  have pre: "make_nlp sample_env (default_agent (Path ''data'')) = Inr ()
     \<and> select_df sample_env (default_agent (Path ''data'')) () ''count orders''
         (emit (nlp_event (default_agent (Path ''data''))) world0) =
        (Inr (Some ''orders''),
         \<lparr>root_level = WARNING, stdout = [],
            trace = [NlpInit (Path ''data'') None False [] [], CsvSelect ''count orders'']\<rparr>)"
    using sample_nlp sample_select by (intro conjI)
  note T = distinct_flag_forwarded [THEN conjunct2, THEN conjunct2, THEN conjunct1, THEN mp,
      OF pre, of False True None "(10, 10)"]
  have a: "fst (get_query sample_env (default_agent (Path ''data'')) ''count orders'' False True
               world0) = Inr (Some ''SELECT DISTINCT COUNT(*) FROM orders'')"
    unfolding T [THEN conjunct1] by (simp add: sample_env_def)
  have pre': "get_sql_query spec_env =
        spec_get_sql_query
          (\<lambda>df. if df = ''orders'' then [''customer'', ''amount'', ''date''] else [])
          (\<lambda>nlp df q.
             Inr \<lparr>plan_table = df, plan_columns = [''customer''], plan_predicates = [],
                  plan_aggregation = None, plan_group_by = [], plan_distinct = True,
                  plan_order_by = None\<rparr>)
     \<and> Nlp spec_env (data_dir (default_agent (DataFrame ''orders'')))
          (schema_dir (default_agent (DataFrame ''orders'')))
          (aws_s3 (default_agent (DataFrame ''orders'')))
          (access_key_id (default_agent (DataFrame ''orders'')))
          (secret_access_key (default_agent (DataFrame ''orders''))) = Inr ()
     \<and> (data_dir (default_agent (DataFrame ''orders'')) = DataFrame ''orders''
          \<or> (\<exists>p. data_dir (default_agent (DataFrame ''orders'')) = Path p)
             \<and> csv_select spec_env () q = Inr (Some ''orders''))
     \<and> (\<lambda>nlp df q.
             Inr \<lparr>plan_table = df, plan_columns = [''customer''], plan_predicates = [],
                  plan_aggregation = None, plan_group_by = [], plan_distinct = True,
                  plan_order_by = None\<rparr>) () ''orders'' q =
          (Inr \<lparr>plan_table = ''orders'', plan_columns = [''customer''], plan_predicates = [],
                  plan_aggregation = None, plan_group_by = [], plan_distinct = True,
                  plan_order_by = None\<rparr> :: py_exn + query_plan)
     \<and> list_all
          (\<lambda>c. c \<in> set ((\<lambda>df. if df = ''orders'' then [''customer'', ''amount'', ''date'']
                               else []) ''orders''))
          (referenced \<lparr>plan_table = ''orders'', plan_columns = [''customer''],
                        plan_predicates = [], plan_aggregation = None, plan_group_by = [],
                        plan_distinct = True, plan_order_by = None\<rparr>)" for q
    by (simp add: spec_env_def sample_env_def default_agent_def referenced_def)
  note S = distinct_flag_forwarded [THEN conjunct2, THEN conjunct2, THEN conjunct2, THEN mp,
      OF pre']
  have rr: "render_rest \<lparr>plan_table = ''orders'', plan_columns = [''customer''],
                        plan_predicates = [], plan_aggregation = None, plan_group_by = [],
                        plan_distinct = True, plan_order_by = None\<rparr> = ''customer FROM orders''"
    by (simp add: render_rest_def)
  have b: "fst (get_query spec_env (default_agent (DataFrame ''orders'')) ''distinct customers''
            False False world0) = Inr (Some ''SELECT customer FROM orders'')"
    unfolding S [THEN conjunct1] rr by simp
  have c: "fst (get_query spec_env (default_agent (DataFrame ''orders'')) ''all customers''
            False True world0) = Inr (Some ''SELECT DISTINCT customer FROM orders'')"
    unfolding S [THEN conjunct1] rr by simp
  have db: "Database spec_env (data_dir (default_agent (DataFrame ''orders'')))
          (schema_dir (default_agent (DataFrame ''orders'')))
          (aws_s3 (default_agent (DataFrame ''orders'')))
          (access_key_id (default_agent (DataFrame ''orders'')))
          (secret_access_key (default_agent (DataFrame ''orders''))) = Inr ()"
    by (simp add: spec_env_def sample_env_def)
  have d: "filter is_fetch (new_events world0
         (snd (query_db spec_env (default_agent (DataFrame ''orders'')) ''distinct customers''
                 False None (10, 10) False world0))) =
       [FetchData Local ''distinct customers'' (Some ''SELECT customer FROM orders'')
          ''sqlite'' [] [] ''db'' ''localhost'' None True]"
    unfolding S [THEN conjunct2, THEN spec, THEN mp, OF db] rr
    by (simp add: default_agent_def)
  from a T [THEN conjunct2] b c d show ?thesis by (intro conjI) (simp_all only:)
qed

subsection \<open>Schema state\<close>

text \<open>
  C7 does not hold: an \<open>Agent\<close> stores the data folder and the schema folder, never what
  was loaded from them. Line 130 constructs an \<open>Nlp\<close> and line 173 a \<open>Database\<close> from these
  two attributes in every call, as the sample session shows for one call of each method.
\<close>

theorem schema_state_rebuilt_counterexample:
  "filter is_schema_load (new_events world0
      (snd (get_query sample_env (default_agent (Path ''data'')) ''count orders'' False False
              world0))) = [NlpInit (Path ''data'') None False [] []]
   \<and> filter is_schema_load (new_events world0
      (snd (query_db sample_env (default_agent (Path ''data'')) ''count orders'' False None
              (10, 10) False world0))) =
       [NlpInit (Path ''data'') None False [] [], DatabaseInit (Path ''data'') None False [] []]"
proof -
  have q: "query_db sample_env (default_agent (Path ''data'')) ''count orders'' False None
              (10, 10) False world0 =
          (Inr [[''3'']],
           emit (fetch_event (default_agent (Path ''data'')) ''count orders''
                   (Some ''SELECT COUNT(*) FROM orders''))
             (emit (database_event (default_agent (Path ''data'')))
                \<lparr>root_level = WARNING, stdout = [],
                   trace = [NlpInit (Path ''data'') None False [] [], CsvSelect ''count orders'',
                            GetSqlQuery ''orders'' ''count orders'' False]\<rparr>))"
    by (rule query_db_no_chart [OF sample_get_query sample_database sample_fetch])
  have a: "filter is_schema_load (new_events world0
      (snd (get_query sample_env (default_agent (Path ''data'')) ''count orders'' False False
              world0))) = [NlpInit (Path ''data'') None False [] []]"
    unfolding sample_get_query by (simp add: new_events_def world0_def)
  have b: "filter is_schema_load (new_events world0
      (snd (query_db sample_env (default_agent (Path ''data'')) ''count orders'' False None
              (10, 10) False world0))) =
       [NlpInit (Path ''data'') None False [] [], DatabaseInit (Path ''data'') None False [] []]"
    unfolding q
    by (simp add: new_events_def world0_def emit_def database_event_def fetch_event_def
        default_agent_def)
  from a b show ?thesis by (intro conjI)
qed

text \<open>
  C7, as amended. No schema state is kept between calls. Every call of \<open>get_query\<close>
  constructs exactly one \<open>Nlp\<close>, from the agent's \<open>data_dir\<close>, \<open>schema_dir\<close>, \<open>aws_s3\<close> and
  the two keys; every call of \<open>query_db\<close> does the same through \<open>get_query\<close> and, once
  \<open>get_query\<close> has returned, constructs exactly one \<open>Database\<close> from the same attributes.
  What the constructors make of these very arguments decides the call: when \<open>Nlp\<close> raises
  on them, so do both methods, and when \<open>Database\<close> raises on them, so does \<open>query_db\<close>.
\<close>

theorem schema_state_built_per_call:
  "filter is_schema_load (new_events w (snd (get_query E self question verbose distinct' w)))
     = [NlpInit (data_dir self) (schema_dir self) (aws_s3 self) (access_key_id self)
          (secret_access_key self)]
   \<and> filter is_schema_load
        (new_events w (snd (query_db E self question verbose chart sz distinct' w)))
     = (case fst (get_query E self question verbose distinct' w) of
          Inl e \<Rightarrow>
            [NlpInit (data_dir self) (schema_dir self) (aws_s3 self) (access_key_id self)
               (secret_access_key self)]
        | Inr query \<Rightarrow>
            [NlpInit (data_dir self) (schema_dir self) (aws_s3 self) (access_key_id self)
               (secret_access_key self),
             DatabaseInit (data_dir self) (schema_dir self) (aws_s3 self) (access_key_id self)
               (secret_access_key self)])
   \<and> (\<forall>e. Nlp E (data_dir self) (schema_dir self) (aws_s3 self) (access_key_id self)
              (secret_access_key self) = Inl e \<longrightarrow>
          fst (get_query E self question verbose distinct' w) = Inl e
          \<and> fst (query_db E self question verbose chart sz distinct' w) = Inl e)
   \<and> (\<forall>query e. fst (get_query E self question verbose distinct' w) = Inr query
          \<and> Database E (data_dir self) (schema_dir self) (aws_s3 self) (access_key_id self)
              (secret_access_key self) = Inl e \<longrightarrow>
          fst (query_db E self question verbose chart sz distinct' w) = Inl e)"
proof -
  obtain evs where evs:
    "new_events w (snd (get_query E self question verbose distinct' w)) = nlp_event self # evs"
    "filter is_schema_load evs = []"
    using get_query_new_events [of w E self question verbose distinct'] by blast
  obtain evs' where evs':
    "new_events w (snd (query_db E self question verbose chart sz distinct' w)) =
      nlp_event self # evs' @
       (case fst (get_query E self question verbose distinct' w) of
          Inl e \<Rightarrow> []
        | Inr query \<Rightarrow> database_event self #
            (case make_database E self of
               Inl e \<Rightarrow> []
             | Inr db \<Rightarrow> fetch_event self question query #
                 (case fetch_answer E self db question query of
                    Inl e \<Rightarrow> []
                  | Inr answer \<Rightarrow>
                      (case chart of None \<Rightarrow> [] | Some c \<Rightarrow> [ChartInit c query answer sz]))))"
    "filter is_schema_load evs' = []"
    using query_db_events [of w E self question verbose chart sz distinct'] by blast
  have "filter is_schema_load
             (new_events w (snd (get_query E self question verbose distinct' w)))
           = [nlp_event self]"
    unfolding evs(1) using evs(2) by simp
  then have a: "filter is_schema_load
             (new_events w (snd (get_query E self question verbose distinct' w)))
     = [NlpInit (data_dir self) (schema_dir self) (aws_s3 self) (access_key_id self)
          (secret_access_key self)]"
    by (simp only: nlp_event_def)
  have "filter is_schema_load
        (new_events w (snd (query_db E self question verbose chart sz distinct' w)))
     = (case fst (get_query E self question verbose distinct' w) of
          Inl e \<Rightarrow> [nlp_event self]
        | Inr query \<Rightarrow> [nlp_event self, database_event self])"
    unfolding evs'(1) using evs'(2) by (simp split: outcome_splits)
  then have b: "filter is_schema_load
        (new_events w (snd (query_db E self question verbose chart sz distinct' w)))
     = (case fst (get_query E self question verbose distinct' w) of
          Inl e \<Rightarrow>
            [NlpInit (data_dir self) (schema_dir self) (aws_s3 self) (access_key_id self)
               (secret_access_key self)]
        | Inr query \<Rightarrow>
            [NlpInit (data_dir self) (schema_dir self) (aws_s3 self) (access_key_id self)
               (secret_access_key self),
             DatabaseInit (data_dir self) (schema_dir self) (aws_s3 self) (access_key_id self)
               (secret_access_key self)])"
    by (simp only: nlp_event_def database_event_def)
  have c: "fst (get_query E self question verbose distinct' w) = Inl e
          \<and> fst (query_db E self question verbose chart sz distinct' w) = Inl e"
    if "Nlp E (data_dir self) (schema_dir self) (aws_s3 self) (access_key_id self)
              (secret_access_key self) = Inl e" for e
  proof -
    from that have gq: "get_query E self question verbose distinct' w =
                      (Inl e, emit (nlp_event self) w)"
      by (simp add: get_query_def make_nlp_def)
    then show ?thesis by (simp add: query_db_raises_early [OF gq])
  qed
  have d: "fst (query_db E self question verbose chart sz distinct' w) = Inl e"
    if "fst (get_query E self question verbose distinct' w) = Inr query
          \<and> Database E (data_dir self) (schema_dir self) (aws_s3 self) (access_key_id self)
              (secret_access_key self) = Inl e" for query e
  proof -
    have gq: "get_query E self question verbose distinct' w =
                (Inr query, snd (get_query E self question verbose distinct' w))"
      using that by (simp add: prod_eq_iff)
    from that have "make_database E self = Inl e" by (simp only: make_database_def)
    then show ?thesis by (simp add: query_db_no_database [OF gq])
  qed
  from a b c d show ?thesis by blast
qed

theorem schema_state_built_per_call_witness:
  "Database picky_env (Path ''bucket'') (Some ''schemas'') True ''AKIA'' ''secret''
     = Inl (ExecutionError ''schemas'')
   \<and> fst (get_query picky_env s3_agent ''count orders'' False False world0)
       = Inr (Some ''SELECT COUNT(*) FROM orders'')
   \<and> fst (query_db picky_env s3_agent ''count orders'' False None (10, 10) False world0)
       = Inl (ExecutionError ''schemas'')
   \<and> filter is_schema_load (new_events world0
        (snd (query_db picky_env s3_agent ''count orders'' False None (10, 10) False world0)))
       = [NlpInit (Path ''bucket'') (Some ''schemas'') True ''AKIA'' ''secret'',
          DatabaseInit (Path ''bucket'') (Some ''schemas'') True ''AKIA'' ''secret'']
   \<and> Nlp picky_env (Path ''bucket'') None True [] [] = Inl SchemaError
   \<and> fst (get_query picky_env ((default_agent (Path ''bucket''))\<lparr>aws_s3 := True\<rparr>)
            ''count orders'' False False world0) = Inl SchemaError"
proof -
  note T = schema_state_built_per_call
    [of world0 picky_env s3_agent "''count orders''" False False None "(10, 10)"]
  have g: "fst (get_query picky_env s3_agent ''count orders'' False False world0)
       = Inr (Some ''SELECT COUNT(*) FROM orders'')"
    by (simp add: get_query_def select_df_def effect_defs make_nlp_def picky_env_def
        sample_env_def s3_agent_def)
  have dbx: "Database picky_env (Path ''bucket'') (Some ''schemas'') True ''AKIA'' ''secret''
     = Inl (ExecutionError ''schemas'')"
    by (simp add: picky_env_def sample_env_def)
  have db: "Database picky_env (data_dir s3_agent) (schema_dir s3_agent) (aws_s3 s3_agent)
              (access_key_id s3_agent) (secret_access_key s3_agent)
            = Inl (ExecutionError ''schemas'')"
    by (simp add: picky_env_def sample_env_def s3_agent_def)
  have q: "fst (query_db picky_env s3_agent ''count orders'' False None (10, 10) False world0)
       = Inl (ExecutionError ''schemas'')"
    by (rule T [THEN conjunct2, THEN conjunct2, THEN conjunct2, THEN spec, THEN spec, THEN mp,
          OF conjI [OF g db]])
  have ev: "filter is_schema_load (new_events world0
        (snd (query_db picky_env s3_agent ''count orders'' False None (10, 10) False world0)))
       = [NlpInit (Path ''bucket'') (Some ''schemas'') True ''AKIA'' ''secret'',
          DatabaseInit (Path ''bucket'') (Some ''schemas'') True ''AKIA'' ''secret'']"
    unfolding T [THEN conjunct2, THEN conjunct1] g by (simp add: s3_agent_def)
  have nx: "Nlp picky_env (Path ''bucket'') None True [] [] = Inl SchemaError"
    by (simp add: picky_env_def sample_env_def)
  have n: "Nlp picky_env (data_dir ((default_agent (Path ''bucket''))\<lparr>aws_s3 := True\<rparr>))
             (schema_dir ((default_agent (Path ''bucket''))\<lparr>aws_s3 := True\<rparr>))
             (aws_s3 ((default_agent (Path ''bucket''))\<lparr>aws_s3 := True\<rparr>))
             (access_key_id ((default_agent (Path ''bucket''))\<lparr>aws_s3 := True\<rparr>))
             (secret_access_key ((default_agent (Path ''bucket''))\<lparr>aws_s3 := True\<rparr>))
           = Inl SchemaError"
    by (simp add: picky_env_def sample_env_def default_agent_def)
  have r: "fst (get_query picky_env ((default_agent (Path ''bucket''))\<lparr>aws_s3 := True\<rparr>)
            ''count orders'' False False world0) = Inl SchemaError"
    by (rule schema_state_built_per_call [THEN conjunct2, THEN conjunct2, THEN conjunct1,
          THEN spec, THEN mp, OF n, THEN conjunct1])
  from dbx g q ev nx r show ?thesis by (intro conjI)
qed

subsection \<open>\<open>query_db\<close> after no table was selected\<close>

text \<open>
  C8. When the \<open>Nlp\<close> object was built and its selector returns \<open>None\<close> for the question,
  \<open>query_db\<close> does not stop after the line printed by \<open>get_query\<close>: it goes on to construct
  the \<open>Database\<close> and, the constructor having returned, calls \<open>fetch_data_aws\<close> or
  \<open>fetch_data\<close> once with \<open>None\<close> in the place of the rendered query; the outcome of
  \<open>query_db\<close> is then what that method (and the chart, if one is requested) makes of the
  call.
\<close>

theorem query_db_no_table_reaches_backend:
  assumes "Nlp E (data_dir self) (schema_dir self) (aws_s3 self) (access_key_id self)
             (secret_access_key self) = Inr nlp"
      and "data_dir self = Path p"
      and "csv_select E nlp question = Inr None"
  shows "stdout (snd (query_db E self question verbose chart sz distinct' w)) =
           stdout w @ [''Sorry,didn't catch that'']
       \<and> DatabaseInit (data_dir self) (schema_dir self) (aws_s3 self) (access_key_id self)
             (secret_access_key self) \<in>
           set (new_events w (snd (query_db E self question verbose chart sz distinct' w)))
       \<and> (\<forall>db. Database E (data_dir self) (schema_dir self) (aws_s3 self) (access_key_id self)
                   (secret_access_key self) = Inr db \<longrightarrow>
             filter is_fetch
               (new_events w (snd (query_db E self question verbose chart sz distinct' w))) =
               [FetchData (if aws_db self then Aws else Local) question None (db_type self)
                  (username self) (password self) (database self) (host self) (port self)
                  (drop_db self)]
             \<and> fst (query_db E self question verbose chart sz distinct' w) =
                 (case (if aws_db self then fetch_data_aws E db else fetch_data E db) question
                         None (db_type self) (username self) (password self) (database self)
                         (host self) (port self) (drop_db self) of
                    Inl e \<Rightarrow> Inl e
                  | Inr answer \<Rightarrow>
                      (case chart of
                         None \<Rightarrow> Inr answer
                       | Some c \<Rightarrow>
                           (case Chart E c None answer sz of
                              Inl e \<Rightarrow> Inl e
                            | Inr u \<Rightarrow> Inr answer))))"
proof -
  have gq: "get_query E self question verbose distinct' w =
           (Inr None,
            w\<lparr>stdout := stdout w @ [''Sorry,didn't catch that''],
              trace := trace w @ [nlp_event self, CsvSelect question]\<rparr>)"
    using assms
    by (simp add: get_query_def select_df_def effect_defs make_nlp_def not_understood_msg_def)
  have tr: "trace (snd (query_db E self question verbose chart sz distinct' w)) =
     (trace w @ [nlp_event self, CsvSelect question]) @
       database_event self #
            (case make_database E self of
               Inl e \<Rightarrow> []
             | Inr db \<Rightarrow> fetch_event self question None #
                 (case fetch_answer E self db question None of
                    Inl e \<Rightarrow> []
                  | Inr answer \<Rightarrow>
                      (case chart of None \<Rightarrow> [] | Some c \<Rightarrow> [ChartInit c None answer sz])))"
    unfolding query_db_trace gq by simp
  have out: "stdout (snd (query_db E self question verbose chart sz distinct' w)) =
           stdout w @ [''Sorry,didn't catch that'']"
    by (simp add: query_db_def gq emit_def Let_def split: outcome_splits)
  have ctor: "DatabaseInit (data_dir self) (schema_dir self) (aws_s3 self) (access_key_id self)
             (secret_access_key self) \<in>
           set (new_events w (snd (query_db E self question verbose chart sz distinct' w)))"
    unfolding new_events_def tr by (simp add: database_event_def)
  have fetch: "filter is_fetch
               (new_events w (snd (query_db E self question verbose chart sz distinct' w))) =
               [FetchData (if aws_db self then Aws else Local) question None (db_type self)
                  (username self) (password self) (database self) (host self) (port self)
                  (drop_db self)]"
    if "Database E (data_dir self) (schema_dir self) (aws_s3 self) (access_key_id self)
                   (secret_access_key self) = Inr db" for db
  proof -
    from that have "make_database E self = Inr db" by (simp only: make_database_def)
    then have "filter is_fetch
               (new_events w (snd (query_db E self question verbose chart sz distinct' w))) =
               [fetch_event self question None]"
      unfolding new_events_def tr by (simp split: outcome_splits)
    then show ?thesis by (simp only: fetch_event_def)
  qed
  have res: "fst (query_db E self question verbose chart sz distinct' w) =
                 (case (if aws_db self then fetch_data_aws E db else fetch_data E db) question
                         None (db_type self) (username self) (password self) (database self)
                         (host self) (port self) (drop_db self) of
                    Inl e \<Rightarrow> Inl e
                  | Inr answer \<Rightarrow>
                      (case chart of
                         None \<Rightarrow> Inr answer
                       | Some c \<Rightarrow>
                           (case Chart E c None answer sz of
                              Inl e \<Rightarrow> Inl e
                            | Inr u \<Rightarrow> Inr answer)))"
    if "Database E (data_dir self) (schema_dir self) (aws_s3 self) (access_key_id self)
                   (secret_access_key self) = Inr db" for db
  proof -
    from that have "make_database E self = Inr db" by (simp only: make_database_def)
    then have "fst (query_db E self question verbose chart sz distinct' w) =
                 (case fetch_answer E self db question None of
                    Inl e \<Rightarrow> Inl e
                  | Inr answer \<Rightarrow>
                      (case chart of
                         None \<Rightarrow> Inr answer
                       | Some c \<Rightarrow>
                           (case Chart E c None answer sz of
                              Inl e \<Rightarrow> Inl e
                            | Inr u \<Rightarrow> Inr answer)))"
      by (simp add: query_db_def gq Let_def split: outcome_splits)
    then show ?thesis by (simp only: fetch_answer_def Let_def)
  qed
  from out ctor fetch res show ?thesis by blast
qed

theorem query_db_no_table_reaches_backend_witness:
  "csv_select sample_env () ''hello'' = Inr None
   \<and> fetch_data sample_env () ''hello'' None ''sqlite'' [] [] ''db'' ''localhost'' None True
       = Inl (ExecutionError ''no query'')
   \<and> stdout (snd (query_db sample_env (default_agent (Path ''data'')) ''hello'' False None
                    (10, 10) False world0)) = [''Sorry,didn't catch that'']
   \<and> filter is_fetch (new_events world0
        (snd (query_db sample_env (default_agent (Path ''data'')) ''hello'' False None (10, 10)
                False world0))) =
       [FetchData Local ''hello'' None ''sqlite'' [] [] ''db'' ''localhost'' None True]
   \<and> fst (query_db sample_env (default_agent (Path ''data'')) ''hello'' False None (10, 10)
            False world0) = Inl (ExecutionError ''no query'')"
proof -
  have h1: "Nlp sample_env (data_dir (default_agent (Path ''data'')))
              (schema_dir (default_agent (Path ''data''))) (aws_s3 (default_agent (Path ''data'')))
              (access_key_id (default_agent (Path ''data'')))
              (secret_access_key (default_agent (Path ''data''))) = Inr ()"
    by (simp add: sample_env_def)
  have h2: "data_dir (default_agent (Path ''data'')) = Path ''data''"
    by (simp add: default_agent_def)
  have h3: "csv_select sample_env () ''hello'' = Inr None"
    by (simp add: sample_env_def)
  have db: "Database sample_env (data_dir (default_agent (Path ''data'')))
              (schema_dir (default_agent (Path ''data''))) (aws_s3 (default_agent (Path ''data'')))
              (access_key_id (default_agent (Path ''data'')))
              (secret_access_key (default_agent (Path ''data''))) = Inr ()"
    by (simp add: sample_env_def)
  have fd: "fetch_data sample_env () ''hello'' None ''sqlite'' [] [] ''db'' ''localhost'' None
              True = Inl (ExecutionError ''no query'')"
    by (simp add: sample_env_def)
  note T = query_db_no_table_reaches_backend [OF h1 h2 h3,
      of False None "(10, 10)" False world0]
  note U = T [THEN conjunct2, THEN conjunct2, THEN spec, THEN mp, OF db]
  have s: "stdout (snd (query_db sample_env (default_agent (Path ''data'')) ''hello'' False None
                    (10, 10) False world0)) = [''Sorry,didn't catch that'']"
    unfolding T [THEN conjunct1] by (simp add: world0_def)
  have f: "filter is_fetch (new_events world0
        (snd (query_db sample_env (default_agent (Path ''data'')) ''hello'' False None (10, 10)
                False world0))) =
       [FetchData Local ''hello'' None ''sqlite'' [] [] ''db'' ''localhost'' None True]"
    unfolding U [THEN conjunct1] by (simp add: default_agent_def)
  have r: "fst (query_db sample_env (default_agent (Path ''data'')) ''hello'' False None (10, 10)
            False world0) = Inl (ExecutionError ''no query'')"
    unfolding U [THEN conjunct2] by (simp add: sample_env_def default_agent_def)
  from h3 fd s f r show ?thesis by (intro conjI)
qed

subsection \<open>An in-memory table\<close>

text \<open>
  C9. When \<open>data_dir\<close> is a \<open>DataFrame\<close>, \<open>get_query\<close> never calls \<open>csv_select\<close>: besides
  logging, its only calls are the construction of \<open>Nlp\<close> and, once that has returned, the
  synthesizer on that very table. Nothing is printed and \<open>None\<close> is never returned: the
  outcome of \<open>get_query\<close> is the synthesizer's query string (or the exception that \<open>Nlp\<close> or
  the synthesizer raised).
\<close>

theorem get_query_dataframe:
  assumes "data_dir self = DataFrame df"
  shows "filter is_select (new_events w (snd (get_query E self question verbose distinct' w)))
           = []
       \<and> filter (\<lambda>ev. \<not> is_log ev)
            (new_events w (snd (get_query E self question verbose distinct' w)))
           = nlp_event self #
              (case make_nlp E self of
                 Inl e \<Rightarrow> []
               | Inr nlp \<Rightarrow> [GetSqlQuery df question distinct'])
       \<and> stdout (snd (get_query E self question verbose distinct' w)) = stdout w
       \<and> fst (get_query E self question verbose distinct' w) \<noteq> Inr None
       \<and> fst (get_query E self question verbose distinct' w) =
           (case make_nlp E self of
              Inl e \<Rightarrow> Inl e
            | Inr nlp \<Rightarrow> map_sum (\<lambda>e. e) Some (get_sql_query E nlp df question distinct'))"
  using assms
  by (auto simp add: get_query_def select_df_def effect_defs new_events_def Let_def
      nlp_event_def split: sum.splits)

theorem get_query_dataframe_witness:
  "data_dir (default_agent (DataFrame ''orders'')) = DataFrame ''orders''
   \<and> filter is_select (new_events world0
        (snd (get_query sample_env (default_agent (DataFrame ''orders'')) ''hello'' False False
                world0))) = []
   \<and> stdout (snd (get_query sample_env (default_agent (DataFrame ''orders'')) ''hello'' False
                    False world0)) = []
   \<and> fst (get_query sample_env (default_agent (DataFrame ''orders'')) ''hello'' False False
            world0) = Inr (Some ''SELECT COUNT(*) FROM orders'')"
proof -
  have h: "data_dir (default_agent (DataFrame ''orders'')) = DataFrame ''orders''"
    by (simp add: default_agent_def)
  note T = get_query_dataframe [OF h, of world0 sample_env "''hello''" False False]
  have nlp: "make_nlp sample_env (default_agent (DataFrame ''orders'')) = Inr ()"
    by (simp add: sample_defs)
  have r: "fst (get_query sample_env (default_agent (DataFrame ''orders'')) ''hello'' False False
            world0) = Inr (Some ''SELECT COUNT(*) FROM orders'')"
    unfolding T [THEN conjunct2, THEN conjunct2, THEN conjunct2, THEN conjunct2]
    by (simp add: nlp) (simp add: sample_env_def)
  have s: "stdout (snd (get_query sample_env (default_agent (DataFrame ''orders'')) ''hello''
                    False False world0)) = []"
    unfolding T [THEN conjunct2, THEN conjunct2, THEN conjunct1] by (simp add: world0_def)
  from h T [THEN conjunct1] s r show ?thesis by (intro conjI)
qed

subsection \<open>The root logger\<close>

text \<open>
  C10. In every call of \<open>get_query\<close> in which a table is selected (the \<open>Nlp\<close> object was
  built and lines 132 to 135 yield a table), the world the call leaves behind has the root
  logger at \<open>INFO\<close> when \<open>verbose\<close> is set and at \<open>WARNING\<close> when it is not, whatever the level
  was before and whether or not the synthesizer then raises.
\<close>

theorem get_query_sets_root_level:
  assumes "make_nlp E self = Inr nlp"
      and "select_df E self nlp question (emit (nlp_event self) w) = (Inr (Some df), w1)"
  shows "root_level (snd (get_query E self question verbose distinct' w)) =
           (if verbose then INFO else WARNING)"
  unfolding get_query_selected [OF assms]
  by (simp add: effect_defs split: sum.splits)

theorem get_query_sets_root_level_witness:
  "root_level world0 = WARNING
   \<and> root_level (snd (get_query sample_env (default_agent (Path ''data'')) ''count orders'' True
                       False world0)) = INFO"
proof -
  have "root_level (snd (get_query sample_env (default_agent (Path ''data'')) ''count orders''
                       True False world0)) = (if True then INFO else WARNING)"
    by (rule get_query_sets_root_level [OF sample_nlp sample_select])
  then show ?thesis by (simp add: world0_def)
qed

end
